theory Spec2Isabelle
  imports Complex_Main "HOL-Library.Word"
begin

section \<open>Chunked file transfer: client (cliente.py) and server (server.py)\<close>

subsection \<open>Data model\<close>

type_synonym byte = "8 word"
type_synonym bytes = "byte list"

text \<open>
  The wire messages. The .proto file is not among the sources; the fields are the ones
  the two programs read and write. Counters and sizes are never negative in either
  program, so they are natural numbers.
\<close>

record FileChunk =
  filename :: string
  data :: bytes
  chunk_number :: nat
  total_chunks :: nat
  is_last_chunk :: bool

text \<open>
  The exceptions the two programs can meet. Python has a single ZeroDivisionError class;
  the tag only records which line raised it.
\<close>

datatype div_site =
    TotalChunksDiv   \<comment> \<open>cliente.py line 43\<close>
  | ProgressDiv      \<comment> \<open>cliente.py line 72\<close>
  | SpeedDiv         \<comment> \<open>server.py line 55\<close>

datatype exn =
    NoContextManager           \<comment> \<open>\<open>with None as f\<close>: None has no \<open>__enter__\<close>\<close>
  | AttributeError             \<comment> \<open>a method called on None\<close>
  | FileNotFoundError string
  | IsADirectoryError string
  | NameTooLongError string    \<comment> \<open>OSError, errno ENAMETOOLONG\<close>
  | PermissionError string     \<comment> \<open>OSError, errno EACCES\<close>
  | NoSpaceError               \<comment> \<open>OSError of a write the device cannot take\<close>
  | ValueError                 \<comment> \<open>I/O operation on closed file\<close>
  | ZeroDivisionError div_site
  | RpcError

text \<open>
  \<open>message\<close> is an f-string in the source: \<open>f"Archivo {filename} recibido exitosamente"\<close>
  (filename may still be None) or \<open>f"Error: {str(e)}"\<close>. The model keeps what is
  interpolated.
\<close>

datatype message_text =
    Recibido "string option"
  | Error exn

record TransferResponse =
  success :: bool
  message :: message_text
  bytes_received :: nat

record FileInfoResponse =
  exists :: bool
  file_size :: nat
  checksum :: string

text \<open>
  The filesystem, as the system calls of the two programs see it. \<open>files\<close> gives the
  content of the regular file a path string resolves to and \<open>dirs\<close> the path strings
  that resolve to a directory (the system resolves \<open>..\<close> and links; the model takes its
  answers). \<open>lookup_error\<close> gives the error, other than "no such file", that looking a path
  up raises, such as a directory that may not be searched; a path with such an error
  resolves to nothing. \<open>opened\<close> holds the file objects open for writing: descriptor to
  path and to the bytes still in the object's buffer. \<open>blksize\<close> is the block size the
  device reports and \<open>space\<close> the bytes it can still take.
\<close>

record filesystem =
  files :: "string \<rightharpoonup> bytes"
  dirs :: "string set"
  lookup_error :: "string \<rightharpoonup> exn"
  opened :: "nat \<rightharpoonup> string \<times> bytes"
  next_fd :: nat
  blksize :: nat
  space :: nat

subsection \<open>Paths (pathlib)\<close>

text \<open>The pieces of a path string between its slashes.\<close>

fun split_slash :: "string \<Rightarrow> string list" where
  "split_slash [] = [[]]"
| "split_slash (c # cs) =
     (if c = CHR ''/'' then [] # split_slash cs
      else (case split_slash cs of [] \<Rightarrow> [[c]] | w # ws \<Rightarrow> (c # w) # ws))"

text \<open>
  A pure POSIX path of pathlib: its root (two leading slashes are kept, one or three and
  more are one) and its parts, without the empty ones and the single dots.
\<close>

definition path_root :: "string \<Rightarrow> string" where
  "path_root p =
     (if take 2 p = ''//'' \<and> take 3 p \<noteq> ''///'' then ''//''
      else if take 1 p = ''/'' then ''/'' else [])"

definition path_parts :: "string \<Rightarrow> string list" where
  "path_parts p = filter (\<lambda>w. w \<noteq> [] \<and> w \<noteq> ''.'') (split_slash p)"

fun join_slash :: "string list \<Rightarrow> string" where
  "join_slash [] = []"
| "join_slash [w] = w"
| "join_slash (w # ws) = w @ ''/'' @ join_slash ws"

text \<open>\<open>str(path)\<close>.\<close>

definition path_str :: "string \<Rightarrow> string list \<Rightarrow> string" where
  "path_str r ws = (if r = [] \<and> ws = [] then ''.'' else r @ join_slash ws)"

text \<open>\<open>Path(file_path).name\<close>: the last part, empty when there is none.\<close>

definition path_name :: "string \<Rightarrow> string" where
  "path_name p = (case path_parts p of [] \<Rightarrow> [] | w # ws \<Rightarrow> last (w # ws))"

text \<open>
  \<open>self.upload_dir / filename\<close>, as the string handed to the system: a name with a root
  replaces the directory, an empty name gives the directory itself.
\<close>

definition path_join :: "string \<Rightarrow> string \<Rightarrow> string" where
  "path_join d n =
     (if path_root n \<noteq> [] then path_str (path_root n) (path_parts n)
      else path_str (path_root d) (path_parts d @ path_parts n))"

text \<open>
  The limits of the system on a path: 255 bytes for one name, 4095 for the whole path.
  A path beyond them makes every lookup raise.
\<close>

definition name_too_long :: "string \<Rightarrow> bool" where
  "name_too_long p = (4095 < length p \<or> list_ex (\<lambda>w. 255 < length w) (split_slash p))"

definition lookup_failure :: "filesystem \<Rightarrow> string \<Rightarrow> exn option" where
  "lookup_failure fs p =
     (if name_too_long p then Some (NameTooLongError p) else lookup_error fs p)"

subsection \<open>cliente.py: the chunk producer\<close>

text \<open>
  The \<open>while True\<close> loop of \<open>_generate_file_chunks\<close> (lines 53 to 76). \<open>f\<close> is what is left
  of the file after the reads so far, so \<open>f.read(chunk_size)\<close> is \<open>take chunk_size f\<close> and
  leaves \<open>drop chunk_size f\<close>. The result is the list of chunks the generator yields when
  it is consumed to its end, and the exception that ended it, if one did.
\<close>

function chunk_loop ::
  "string \<Rightarrow> nat \<Rightarrow> nat \<Rightarrow> nat \<Rightarrow> bytes \<Rightarrow> nat \<Rightarrow> nat \<Rightarrow> FileChunk list \<times> exn option" where
  "chunk_loop fname chunk_size fsize tot f chunk_no bytes_sent =
     (let chunk_data = take chunk_size f in
      if chunk_data = [] then ([], None)
      else
        let chunk_no' = chunk_no + 1;
            bytes_sent' = bytes_sent + length chunk_data;
            is_last = (chunk_no' = tot);
            c = \<lparr>filename = fname, data = chunk_data, chunk_number = chunk_no',
                 total_chunks = tot, is_last_chunk = is_last\<rparr>
        in if chunk_no' mod 100 = 0 \<and> fsize = 0 then ([c], Some (ZeroDivisionError ProgressDiv))
           else if is_last then ([c], None)
           else (case chunk_loop fname chunk_size fsize tot (drop chunk_size f) chunk_no' bytes_sent'
                 of (cs, e) \<Rightarrow> (c # cs, e)))"
  by pat_completeness auto
termination
  by (relation "measure (\<lambda>(fname, chunk_size, fsize, tot, f, chunk_no, bytes_sent). length f)")
     (auto simp: Let_def)

declare chunk_loop.simps [simp del]

text \<open>Line 43: \<open>(file_size + self.chunk_size - 1) // self.chunk_size\<close>, for \<open>chunk_size \<ge> 1\<close>.\<close>

definition total_chunks_of :: "nat \<Rightarrow> nat \<Rightarrow> nat" where
  "total_chunks_of fsize chunk_size = (fsize + chunk_size - 1) div chunk_size"

text \<open>
  Lines 43 to 76 of \<open>_generate_file_chunks\<close>, for a path that \<open>stat\<close> and \<open>open\<close> accept.
  \<open>fsize\<close> is the size \<open>stat\<close> reported at line 42 and \<open>f\<close> the bytes the reads of line 54
  return; the source relates the two nowhere. They agree for a regular file that does
  not change during the call; for a FIFO or a device \<open>stat\<close> reports 0 whatever is read.
  The floor division raises when \<open>chunk_size\<close> is 0; with \<open>chunk_size \<ge> 1\<close> the sum
  \<open>file_size + chunk_size - 1\<close> is not negative, so the subtraction in the naturals is the
  one of the source.
\<close>

definition generate_chunks :: "nat \<Rightarrow> string \<Rightarrow> nat \<Rightarrow> bytes \<Rightarrow> FileChunk list \<times> exn option" where
  "generate_chunks chunk_size fname fsize f =
     (if chunk_size = 0 then ([], Some (ZeroDivisionError TotalChunksDiv))
      else chunk_loop fname chunk_size fsize (total_chunks_of fsize chunk_size) f 0 0)"

text \<open>
  \<open>_generate_file_chunks\<close> on a path of the filesystem. \<open>file_path\<close> is the \<open>Path\<close> of line
  40, in the form pathlib gives it. A regular file has the size of its content. For a
  directory \<open>stat\<close> succeeds, so the division of line 43 comes before the \<open>open\<close> that
  raises; for a path that resolves to nothing \<open>stat\<close> raises.
\<close>

definition generate_file_chunks :: "nat \<Rightarrow> filesystem \<Rightarrow> string \<Rightarrow> FileChunk list \<times> exn option" where
  "generate_file_chunks chunk_size fs file_path =
     (case files fs file_path of
        Some content \<Rightarrow>
          generate_chunks chunk_size (path_name file_path) (length content) content
      | None \<Rightarrow>
          if file_path \<in> dirs fs then
            (if chunk_size = 0 then ([], Some (ZeroDivisionError TotalChunksDiv))
             else ([], Some (IsADirectoryError file_path)))
          else (case lookup_failure fs file_path of
                  Some e \<Rightarrow> ([], Some e)
                | None \<Rightarrow> ([], Some (FileNotFoundError file_path))))"

subsection \<open>The digest (both programs)\<close>

text \<open>
  \<open>for chunk in iter(lambda: f.read(4096), b""): hash_md5.update(chunk)\<close>. The state of
  the hash object is the sequence of bytes fed to it so far (\<open>update(a); update(b)\<close> is
  \<open>update(a + b)\<close> in hashlib); \<open>hexdigest\<close> applies MD5 itself, a function \<open>H\<close> of the
  library that the model takes as a parameter.
\<close>

function md5_loop :: "bytes \<Rightarrow> bytes \<Rightarrow> bytes" where
  "md5_loop f hash_md5 =
     (let chunk = take 4096 f in
      if chunk = [] then hash_md5
      else md5_loop (drop 4096 f) (hash_md5 @ chunk))"
  by pat_completeness auto
termination
  by (relation "measure (\<lambda>(f, hash_md5). length f)") (auto simp: Let_def)

declare md5_loop.simps [simp del]

text \<open>\<open>_calculate_md5\<close> of cliente.py, lines 139 to 145.\<close>

definition calculate_md5 :: "(bytes \<Rightarrow> string) \<Rightarrow> filesystem \<Rightarrow> string \<Rightarrow> exn + string" where
  "calculate_md5 H fs file_path =
     (case files fs file_path of
        Some content \<Rightarrow> Inr (H (md5_loop content []))
      | None \<Rightarrow>
          if file_path \<in> dirs fs then Inl (IsADirectoryError file_path)
          else (case lookup_failure fs file_path of
                  Some e \<Rightarrow> Inl e
                | None \<Rightarrow> Inl (FileNotFoundError file_path)))"

subsection \<open>server.py: files opened for writing\<close>

text \<open>
  The directory a new file is created in must exist; a path of one part is created in
  the working directory or the root.
\<close>

definition parent_exists :: "filesystem \<Rightarrow> string \<Rightarrow> bool" where
  "parent_exists fs p =
     (length (path_parts p) \<le> 1 \<or> path_str (path_root p) (butlast (path_parts p)) \<in> dirs fs)"

text \<open>
  \<open>open(path, 'wb')\<close>: creates or truncates the file and gives a file object with an empty
  buffer on a fresh descriptor.
\<close>

definition open_wb :: "filesystem \<Rightarrow> string \<Rightarrow> exn + (nat \<times> filesystem)" where
  "open_wb fs p =
     (if p \<in> dirs fs then Inl (IsADirectoryError p)
      else case lookup_failure fs p of
        Some e \<Rightarrow> Inl e
      | None \<Rightarrow>
          if \<not> parent_exists fs p then Inl (FileNotFoundError p)
          else
            let fd = next_fd fs
            in Inr (fd, fs\<lparr>files := (files fs)(p \<mapsto> []),
                            opened := (opened fs)(fd \<mapsto> (p, [])),
                            next_fd := fd + 1\<rparr>))"

text \<open>
  The system's \<open>write\<close>, repeated until the device takes no more: the filesystem after
  it, and the bytes the device did not take.
\<close>

definition append_file :: "filesystem \<Rightarrow> string \<Rightarrow> bytes \<Rightarrow> filesystem \<times> bytes" where
  "append_file fs p bs =
     (let n = min (space fs) (length bs)
      in (fs\<lparr>files := (files fs)(p \<mapsto> (case files fs p of None \<Rightarrow> [] | Some old \<Rightarrow> old) @ take n bs),
              space := space fs - n\<rparr>,
          drop n bs))"

text \<open>The size of the buffer \<open>open\<close> gives the file object.\<close>

definition buffer_size :: "filesystem \<Rightarrow> nat" where
  "buffer_size fs = (if blksize fs \<le> 1 then 8192 else blksize fs)"

text \<open>
  \<open>f.write(data)\<close> on the buffered file object: data that fits the buffer stays there;
  otherwise the buffer is written out, then data larger than the buffer goes to the file
  directly and smaller data becomes the buffer. A device that takes no more raises, with
  the filesystem as it then is.
\<close>

definition write_fd :: "filesystem \<Rightarrow> nat \<Rightarrow> bytes \<Rightarrow> (exn \<times> filesystem) + filesystem" where
  "write_fd fs fd bs =
     (case opened fs fd of
        None \<Rightarrow> Inl (ValueError, fs)
      | Some (p, buf) \<Rightarrow>
          if length buf + length bs \<le> buffer_size fs
          then Inr (fs\<lparr>opened := (opened fs)(fd \<mapsto> (p, buf @ bs))\<rparr>)
          else
            (case append_file fs p buf of
               (fs1, rest) \<Rightarrow>
                 if rest \<noteq> [] then Inl (NoSpaceError, fs1\<lparr>opened := (opened fs1)(fd \<mapsto> (p, rest))\<rparr>)
                 else if length bs \<le> buffer_size fs
                 then Inr (fs1\<lparr>opened := (opened fs1)(fd \<mapsto> (p, bs))\<rparr>)
                 else
                   (case append_file fs1 p bs of
                      (fs2, rest2) \<Rightarrow>
                        if buffer_size fs < length rest2
                        then Inl (NoSpaceError, fs2\<lparr>opened := (opened fs2)(fd \<mapsto> (p, []))\<rparr>)
                        else Inr (fs2\<lparr>opened := (opened fs2)(fd \<mapsto> (p, rest2))\<rparr>))))"

text \<open>
  \<open>f.close()\<close>: the buffer is written out and the descriptor released, also when the
  writing raises. Closing a closed file does nothing.
\<close>

definition close_fd :: "filesystem \<Rightarrow> nat \<Rightarrow> filesystem \<times> exn option" where
  "close_fd fs fd =
     (case opened fs fd of
        None \<Rightarrow> (fs, None)
      | Some (p, buf) \<Rightarrow>
          (case append_file fs p buf of
             (fs1, rest) \<Rightarrow>
               (fs1\<lparr>opened := (opened fs1)(fd := None)\<rparr>,
                if rest = [] then None else Some NoSpaceError)))"

subsection \<open>server.py: \<open>TransferFile\<close>\<close>

text \<open>
  The local variables of \<open>TransferFile\<close>: those of lines 25 to 28, and \<open>f\<close>, not bound
  until the \<open>with\<close> statement or line 38 binds it.
\<close>

record locals =
  l_filename :: "string option"
  l_file_path :: "string option"
  l_f :: "nat option"
  total_bytes :: nat
  chunks_received :: nat

text \<open>
  One pass through the body of the \<open>for\<close> loop, lines 34 to 48. \<open>Inl\<close> is an exception,
  with the locals and the filesystem as they are when it is raised; \<open>Inr\<close> carries
  whether the pass ended in \<open>break\<close>.
\<close>

definition loop_body ::
  "string \<Rightarrow> locals \<Rightarrow> filesystem \<Rightarrow> FileChunk \<Rightarrow>
   (exn \<times> locals \<times> filesystem) + (locals \<times> filesystem \<times> bool)" where
  "loop_body upload_dir l fs chunk =
     (case (if l_filename l = None then
              (let p = path_join upload_dir (filename chunk);
                   l1 = l\<lparr>l_filename := Some (filename chunk), l_file_path := Some p\<rparr>
               in case open_wb fs p of
                    Inl e \<Rightarrow> Inl (e, l1, fs)
                  | Inr (fd, fs1) \<Rightarrow> Inr (l1\<lparr>l_f := Some fd\<rparr>, fs1))
            else Inr (l, fs)) of
        Inl x \<Rightarrow> Inl x
      | Inr (l1, fs1) \<Rightarrow>
          (case l_f l1 of
             None \<Rightarrow> Inl (AttributeError, l1, fs1)
           | Some fd \<Rightarrow>
               (case write_fd fs1 fd (data chunk) of
                  Inl (e, fs2) \<Rightarrow> Inl (e, l1, fs2)
                | Inr fs2 \<Rightarrow>
                    Inr (l1\<lparr>total_bytes := total_bytes l1 + length (data chunk),
                             chunks_received := chunks_received l1 + 1\<rparr>,
                         fs2, is_last_chunk chunk))))"

text \<open>
  The \<open>for\<close> loop over \<open>request_iterator\<close> (line 33). The last component is what the loop
  has left of the iterator.
\<close>

fun receive_loop ::
  "string \<Rightarrow> locals \<Rightarrow> filesystem \<Rightarrow> FileChunk list \<Rightarrow>
   exn option \<times> locals \<times> filesystem \<times> FileChunk list" where
  "receive_loop upload_dir l fs [] = (None, l, fs, [])"
| "receive_loop upload_dir l fs (chunk # rest) =
     (case loop_body upload_dir l fs chunk of
        Inl (e, l1, fs1) \<Rightarrow> (Some e, l1, fs1, rest)
      | Inr (l1, fs1, brk) \<Rightarrow>
          if brk then (None, l1, fs1, rest) else receive_loop upload_dir l1 fs1 rest)"

text \<open>
  The body of the \<open>with\<close> statement, lines 33 to 51: the loop, then \<open>if f: f.close()\<close>,
  which an exception of the loop skips.
\<close>

definition with_body ::
  "string \<Rightarrow> locals \<Rightarrow> filesystem \<Rightarrow> FileChunk list \<Rightarrow>
   exn option \<times> locals \<times> filesystem \<times> FileChunk list" where
  "with_body upload_dir l fs request_iterator =
     (case receive_loop upload_dir l fs request_iterator of
        (Some e, l1, fs1, it) \<Rightarrow> (Some e, l1, fs1, it)
      | (None, l1, fs1, it) \<Rightarrow>
          (case l_f l1 of
             None \<Rightarrow> (None, l1, fs1, it)
           | Some fd \<Rightarrow> (case close_fd fs1 fd of (fs2, e) \<Rightarrow> (e, l1, fs2, it))))"

text \<open>
  Line 32, \<open>with open(file_path, 'wb') if file_path else None as f:\<close>. The context
  expression is the conditional expression; entering the context of None raises before
  \<open>f\<close> is bound and before the body runs. A file object as the context is bound to \<open>f\<close>
  and closed when the block is left, normally or by an exception; an exception of that
  closing is the one that leaves the statement.
\<close>

definition with_statement ::
  "string \<Rightarrow> locals \<Rightarrow> filesystem \<Rightarrow> FileChunk list \<Rightarrow>
   exn option \<times> locals \<times> filesystem \<times> FileChunk list" where
  "with_statement upload_dir l fs request_iterator =
     (case l_file_path l of
        None \<Rightarrow> (Some NoContextManager, l, fs, request_iterator)
      | Some p \<Rightarrow>
          (case open_wb fs p of
             Inl e \<Rightarrow> (Some e, l, fs, request_iterator)
           | Inr (fd, fs1) \<Rightarrow>
               (case with_body upload_dir (l\<lparr>l_f := Some fd\<rparr>) fs1 request_iterator of
                  (e, l1, fs2, it) \<Rightarrow>
                    (case close_fd fs2 fd of
                       (fs3, None) \<Rightarrow> (e, l1, fs3, it)
                     | (fs3, Some e') \<Rightarrow> (Some e', l1, fs3, it)))))"

text \<open>Lines 25 to 28.\<close>

definition initial_locals :: locals where
  "initial_locals = \<lparr>l_filename = None, l_file_path = None, l_f = None,
                      total_bytes = 0, chunks_received = 0\<rparr>"

text \<open>
  \<open>TransferFile\<close>, lines 25 to 74. \<open>start_time\<close> and \<open>end_time\<close> are the two readings of the
  clock; the division by their difference (line 55) raises when it is zero. The result
  is the response, the filesystem after the call and what is left of the iterator.
\<close>

definition TransferFile ::
  "string \<Rightarrow> real \<Rightarrow> real \<Rightarrow> filesystem \<Rightarrow> FileChunk list \<Rightarrow>
   TransferResponse \<times> filesystem \<times> FileChunk list" where
  "TransferFile upload_dir start_time end_time fs request_iterator =
     (case with_statement upload_dir initial_locals fs request_iterator of
        (Some e, l, fs1, it) \<Rightarrow>
          (\<lparr>success = False, message = Error e, bytes_received = total_bytes l\<rparr>, fs1, it)
      | (None, l, fs1, it) \<Rightarrow>
          let transfer_time = end_time - start_time
          in if transfer_time = 0
             then (\<lparr>success = False, message = Error (ZeroDivisionError SpeedDiv),
                    bytes_received = total_bytes l\<rparr>, fs1, it)
             else (\<lparr>success = True, message = Recibido (l_filename l),
                    bytes_received = total_bytes l\<rparr>, fs1, it))"

subsection \<open>server.py: \<open>GetFileInfo\<close>\<close>

text \<open>
  \<open>GetFileInfo\<close>, lines 78 to 99. \<open>Path.exists\<close> is true of a directory too, and
  \<open>open(..., "rb")\<close> then raises; \<open>Path.exists\<close> lets through every error of the lookup
  that is not "no such file". The method has no handler, so either exception leaves it.
\<close>

definition GetFileInfo ::
  "(bytes \<Rightarrow> string) \<Rightarrow> string \<Rightarrow> filesystem \<Rightarrow> string \<Rightarrow> exn + FileInfoResponse" where
  "GetFileInfo H upload_dir fs request_filename =
     (let file_path = path_join upload_dir request_filename in
      case files fs file_path of
        Some content \<Rightarrow>
          Inr \<lparr>exists = True, file_size = length content,
               checksum = H (md5_loop content [])\<rparr>
      | None \<Rightarrow>
          if file_path \<in> dirs fs then Inl (IsADirectoryError file_path)
          else (case lookup_failure fs file_path of
                  Some e \<Rightarrow> Inl e
                | None \<Rightarrow> Inr \<lparr>exists = False, file_size = 0, checksum = []\<rparr>))"

subsection \<open>cliente.py: verification\<close>

text \<open>
  \<open>verify_file\<close>, lines 112 to 137. \<open>stub\<close> is the remote call: an exception of the channel
  or of the remote method, or its response. Every exception ends in \<open>return False\<close>.
\<close>

definition verify_file ::
  "(bytes \<Rightarrow> string) \<Rightarrow> (string \<Rightarrow> exn + FileInfoResponse) \<Rightarrow> filesystem \<Rightarrow>
   string \<Rightarrow> string \<Rightarrow> bool" where
  "verify_file H stub fs fname local_path =
     (case stub fname of
        Inl e \<Rightarrow> False
      | Inr response \<Rightarrow>
          if exists response then
            (case calculate_md5 H fs local_path of
               Inl e \<Rightarrow> False
             | Inr local_checksum \<Rightarrow>
                 if local_checksum = checksum response then True else False)
          else False)"

subsection \<open>The chunks of a file, in closed form\<close>

text \<open>
  Chunk \<open>i\<close> (from 0) of the content \<open>f\<close> cut in pieces of \<open>C\<close> bytes, numbered from
  \<open>k + 1\<close>: what the producer is shown to yield.
\<close>

definition nth_chunk :: "string \<Rightarrow> nat \<Rightarrow> nat \<Rightarrow> bytes \<Rightarrow> nat \<Rightarrow> nat \<Rightarrow> FileChunk" where
  "nth_chunk fname C tot f k i =
     \<lparr>filename = fname, data = take C (drop (i * C) f), chunk_number = k + 1 + i,
      total_chunks = tot, is_last_chunk = (k + 1 + i = tot)\<rparr>"

subsection \<open>Inputs of the scenarios\<close>

definition five_fs :: filesystem where
  "five_fs = \<lparr>files = [''dir/five.bin'' \<mapsto> [1, 2, 3, 4, 5]], dirs = {''dir''},
              lookup_error = Map.empty, opened = Map.empty, next_fd = 0,
              blksize = 4096, space = 0\<rparr>"

definition five_chunks :: "FileChunk list" where
  "five_chunks =
     [\<lparr>filename = ''five.bin'', data = [1, 2], chunk_number = 1, total_chunks = 3, is_last_chunk = False\<rparr>,
      \<lparr>filename = ''five.bin'', data = [3, 4], chunk_number = 2, total_chunks = 3, is_last_chunk = False\<rparr>,
      \<lparr>filename = ''five.bin'', data = [5], chunk_number = 3, total_chunks = 3, is_last_chunk = True\<rparr>]"

definition empty_fs :: filesystem where
  "empty_fs = \<lparr>files = [''empty.bin'' \<mapsto> []], dirs = {}, lookup_error = Map.empty,
               opened = Map.empty, next_fd = 0, blksize = 4096, space = 0\<rparr>"

definition toy_digest :: "bytes \<Rightarrow> string" where
  "toy_digest bs = map (\<lambda>b. if even b then CHR ''0'' else CHR ''1'') bs"

definition uploads_fs :: filesystem where
  "uploads_fs = \<lparr>files = [''uploads/five.bin'' \<mapsto> [1, 2, 3, 4, 5]], dirs = {''uploads''},
                 lookup_error = Map.empty, opened = Map.empty, next_fd = 0,
                 blksize = 4096, space = 100\<rparr>"

definition bare_uploads_fs :: filesystem where
  "bare_uploads_fs = \<lparr>files = Map.empty, dirs = {''uploads''}, lookup_error = Map.empty,
                      opened = Map.empty, next_fd = 0, blksize = 4096, space = 100\<rparr>"



definition whole_chunk :: FileChunk where
  "whole_chunk = \<lparr>filename = ''five.bin'', data = [1, 2, 3, 4, 5], chunk_number = 1,
                  total_chunks = 1, is_last_chunk = True\<rparr>"

definition source_fs :: filesystem where
  "source_fs = \<lparr>files = [''big.bin'' \<mapsto> replicate 2500000 0], dirs = {},
                lookup_error = Map.empty, opened = Map.empty, next_fd = 0,
                blksize = 4096, space = 0\<rparr>"

section \<open>Properties\<close>

subsection \<open>The receiver never enters its loop\<close>

lemma with_statement_no_path:
  "l_file_path l = None \<Longrightarrow>
   with_statement upload_dir l fs request_iterator = (Some NoContextManager, l, fs, request_iterator)"
  by (simp add: with_statement_def)

text \<open>
  C2. For every sequence of chunks, well-formed or not, \<open>TransferFile\<close> answers
  \<open>success = False\<close> and \<open>bytes_received = 0\<close>: the context expression of line 32 is None,
  entering it raises, and the handler of line 68 turns the exception into the failed
  response. The filesystem is as before the call (no file is created, no byte written,
  no descriptor opened) and the iterator has not been advanced.
\<close>

theorem TransferFile_always_fails:
  "TransferFile upload_dir start_time end_time fs request_iterator =
     (\<lparr>success = False, message = Error NoContextManager, bytes_received = 0\<rparr>,
      fs, request_iterator)"
  by (simp add: TransferFile_def initial_locals_def with_statement_no_path)

subsection \<open>The producer\<close>

lemma ceil_div_zero: "0 < (C::nat) \<Longrightarrow> ((n + C - 1) div C = 0) = (n = 0)"
  by (cases "n = 0") (auto simp: div_eq_0_iff)

lemma ceil_div_step: 
  assumes "0 < (C::nat)" "0 < n"
  shows "(n + C - 1) div C = Suc ((n - C + C - 1) div C)"
proof -
  have a: "n + C - 1 = (n - 1) + C" using assms by linarith
  have b: "(n + C - 1) div C = Suc ((n - 1) div C)"
    unfolding a using assms(1) by (simp only: div_add_self2)
  show ?thesis
  proof (cases "C \<le> n")
    case True
    then have "n - C + C - 1 = n - 1" by linarith
    then show ?thesis using b by (simp only:)
  next
    case False
    then have "n - C + C - 1 = C - 1" by linarith
    moreover have "(C - 1) div C = 0" using assms(1) by (intro div_less) linarith
    moreover have "(n - 1) div C = 0" using False by (intro div_less) linarith
    ultimately show ?thesis using b by (simp only:)
  qed
qed

lemma chunk_loop_Nil: "chunk_loop fname C fsize tot [] k sent = ([], None)"
  by (subst chunk_loop.simps) simp

lemma chunk_loop_step:
  assumes "0 < C" "f \<noteq> []" "fsize \<noteq> 0"
  shows "chunk_loop fname C fsize tot f k sent =
     (if k + 1 = tot then ([nth_chunk fname C tot f k 0], None)
      else (nth_chunk fname C tot f k 0 #
              fst (chunk_loop fname C fsize tot (drop C f) (k + 1) (sent + length (take C f))),
            snd (chunk_loop fname C fsize tot (drop C f) (k + 1) (sent + length (take C f)))))"
proof -
  have "take C f \<noteq> []" using assms by simp
  then show ?thesis using assms(3)
    by (subst chunk_loop.simps) (simp add: Let_def nth_chunk_def split: prod.split)
qed

lemma chunk_loop_closed_form:
  "0 < C \<Longrightarrow> (length f + C - 1) div C = n \<Longrightarrow> tot = k + n \<Longrightarrow> length f \<le> fsize \<Longrightarrow>
   chunk_loop fname C fsize tot f k sent = (map (nth_chunk fname C tot f k) [0..<n], None)"
proof (induction n arbitrary: f k sent)
  case 0
  from 0(1,2) have "f = []" using ceil_div_zero[of C "length f"] by simp
  then show ?case by (simp add: chunk_loop_Nil)
next
  case (Suc m)
  from Suc.prems(1,2) have ne: "f \<noteq> []" using ceil_div_zero[of C "length f"] by auto
  from ne Suc.prems(4) have fs: "fsize \<noteq> 0" by (cases f) auto
  have m: "(length (drop C f) + C - 1) div C = m"
    using ceil_div_step[of C "length f"] Suc.prems(1,2) ne by simp
  have st: "chunk_loop fname C fsize tot f k sent =
     (if k + 1 = tot then ([nth_chunk fname C tot f k 0], None)
      else (nth_chunk fname C tot f k 0 #
              fst (chunk_loop fname C fsize tot (drop C f) (k + 1) (sent + length (take C f))),
            snd (chunk_loop fname C fsize tot (drop C f) (k + 1) (sent + length (take C f)))))"
    by (rule chunk_loop_step[OF Suc.prems(1) ne fs])
  show ?case
  proof (cases "m = 0")
    case True
    then have "k + 1 = tot" using Suc.prems(3) by simp
    then show ?thesis unfolding st using True by simp
  next
    case False
    then have nl: "k + 1 \<noteq> tot" using Suc.prems(3) by simp
    have le: "length (drop C f) \<le> fsize" using Suc.prems(4) by simp
    have t: "tot = (k + 1) + m" using Suc.prems(3) by simp
    have ih: "chunk_loop fname C fsize tot (drop C f) (k + 1) (sent + length (take C f)) =
          (map (nth_chunk fname C tot (drop C f) (k + 1)) [0..<m], None)"
      by (rule Suc.IH[OF Suc.prems(1) m t le])
    have shift: "map (nth_chunk fname C tot (drop C f) (k + 1)) [0..<m] =
                 map (\<lambda>i. nth_chunk fname C tot f k (Suc i)) [0..<m]"
      by (simp add: nth_chunk_def add.commute)
    have "map (nth_chunk fname C tot f k) [0..<Suc m] =
          nth_chunk fname C tot f k 0 # map (\<lambda>i. nth_chunk fname C tot f k (Suc i)) [0..<m]"
      by (rule map_upt_Suc)
    then show ?thesis unfolding st ih using nl shift by simp
  qed
qed

lemma generate_file_chunks_closed_form:
  assumes "files fs p = Some bs" "0 < C"
  shows "generate_file_chunks C fs p =
           (map (nth_chunk (path_name p) C (total_chunks_of (length bs) C) bs 0)
                [0..<total_chunks_of (length bs) C], None)"
  using assms
  by (simp add: generate_file_chunks_def generate_chunks_def total_chunks_of_def
        chunk_loop_closed_form)

lemma total_chunks_of_pos:
  assumes "0 < C" "0 < S"
  shows "total_chunks_of S C = Suc ((S - 1) div C)"
proof -
  have "S + C - 1 = (S - 1) + C" using assms by linarith
  then show ?thesis unfolding total_chunks_of_def using assms(1) by (simp only: div_add_self2) 
qed

lemma total_chunks_of_split:
  assumes "0 < C" "0 < S"
  obtains q r where "S = q * C + r + 1" "r < C" "total_chunks_of S C = Suc q"
proof -
  define q where "q = (S - 1) div C"
  define r where "r = (S - 1) mod C"
  have "q * C + r = S - 1" unfolding q_def r_def by simp
  then have "S = q * C + r + 1" using assms(2) by linarith
  moreover have "r < C" unfolding r_def using assms(1) by simp
  moreover have "total_chunks_of S C = Suc q"
    unfolding q_def by (rule total_chunks_of_pos[OF assms])
  ultimately show thesis by (rule that)
qed

lemma total_chunks_of_bounds:
  assumes "0 < C" "0 < S"
  shows "(total_chunks_of S C - 1) * C < S" and "S \<le> total_chunks_of S C * C"
proof -
  obtain q r where S: "S = q * C + r + 1" and r: "r < C" and n: "total_chunks_of S C = Suc q"
    by (rule total_chunks_of_split[OF assms])
  show "(total_chunks_of S C - 1) * C < S" unfolding n using S by simp
  have "Suc q * C = q * C + C" by simp
  then show "S \<le> total_chunks_of S C * C" unfolding n using S r by linarith
qed

lemma last_chunk_size:
  assumes "0 < C" "0 < S"
  shows "S - (total_chunks_of S C - 1) * C = (if S mod C = 0 then C else S mod C)"
proof -
  obtain q r where S: "S = q * C + r + 1" and r: "r < C" and n: "total_chunks_of S C = Suc q"
    by (rule total_chunks_of_split[OF assms])
  have l: "S - (total_chunks_of S C - 1) * C = r + 1" unfolding n using S by simp
  have md: "S mod C = (r + 1) mod C" unfolding S by (simp add: add.assoc)
  show ?thesis
  proof (cases "r + 1 = C")
    case True
    then show ?thesis using l md by simp
  next
    case False
    then have "r + 1 < C" using r by linarith
    then have "(r + 1) mod C = r + 1" by simp
    then show ?thesis using l md by simp
  qed
qed

lemma total_chunks_of_ceiling:
  assumes "0 < C" "0 < S"
  shows "nat \<lceil>real S / real C\<rceil> = total_chunks_of S C"
proof -
  let ?n = "total_chunks_of S C"
  have n0: "0 < ?n" using total_chunks_of_pos[OF assms] by simp
  have lo: "real (?n - 1) * real C < real S"
    using total_chunks_of_bounds(1)[OF assms] by (metis of_nat_less_iff of_nat_mult)
  have hi: "real S \<le> real ?n * real C"
    using total_chunks_of_bounds(2)[OF assms] by (metis of_nat_le_iff of_nat_mult)
  have c: "0 < real C" using assms(1) by simp
  have "real_of_int (int ?n) - 1 < real S / real C"
    using lo c n0 by (simp add: pos_less_divide_eq)
  moreover have "real S / real C \<le> real_of_int (int ?n)"
    using hi c by (simp add: pos_divide_le_eq)
  ultimately have "\<lceil>real S / real C\<rceil> = int ?n" by (rule ceiling_unique)
  then show ?thesis by simp
qed

lemma chunk_size_closed_form:
  assumes "0 < C" "bs \<noteq> []" "i < total_chunks_of (length bs) C"
  shows "length (take C (drop (i * C) bs)) =
           (if Suc i < total_chunks_of (length bs) C then C
            else if length bs mod C = 0 then C else length bs mod C)"
proof -
  let ?S = "length bs" and ?n = "total_chunks_of (length bs) C"
  have S: "0 < ?S" using assms(2) by simp
  have len: "length (take C (drop (i * C) bs)) = min C (?S - i * C)" by simp
  show ?thesis
  proof (cases "Suc i < ?n")
    case True
    then have "Suc i \<le> ?n - 1" by linarith
    then have "Suc i * C \<le> (?n - 1) * C" by (rule mult_le_mono1)
    also have "\<dots> < ?S" by (rule total_chunks_of_bounds(1)[OF assms(1) S])
    finally have "i * C + C < ?S" by simp
    then have "min C (?S - i * C) = C" by linarith
    then show ?thesis using True len by simp
  next
    case False
    then have i: "i = ?n - 1" using assms(3) by linarith
    have l: "?S - i * C = (if ?S mod C = 0 then C else ?S mod C)"
      unfolding i by (rule last_chunk_size[OF assms(1) S])
    have "?S mod C < C" using assms(1) by simp
    then have "min C (?S - i * C) = ?S - i * C" unfolding l by simp
    then show ?thesis using False len l by simp
  qed
qed

text \<open>
  C5. For a file of \<open>S > 0\<close> bytes and a chunk size \<open>C > 0\<close> the producer ends without an
  exception and yields exactly \<open>ceil(S / C)\<close> chunks, numbered 1, 2, ... in this order; each
  carries the same \<open>total_chunks = ceil(S / C)\<close>, computed before the loop; every chunk but
  the last has \<open>C\<close> bytes of data and the last has \<open>S mod C\<close>, or \<open>C\<close> when \<open>C\<close> divides \<open>S\<close>.
\<close>

theorem producer_emits_ceil_chunks:
  assumes "files fs p = Some bs" and "bs \<noteq> []" and "0 < C"
    and "generate_file_chunks C fs p = (chunks, e)"
  shows "e = None \<and>
         length chunks = nat \<lceil>real (length bs) / real C\<rceil> \<and>
         map chunk_number chunks = [1..<Suc (length chunks)] \<and>
         (\<forall>c \<in> set chunks. total_chunks c = nat \<lceil>real (length bs) / real C\<rceil>) \<and>
         (\<forall>i < length chunks.
            length (data (chunks ! i)) =
              (if Suc i < length chunks then C
               else if length bs mod C = 0 then C else length bs mod C))"
proof -
  let ?n = "total_chunks_of (length bs) C"
  have S: "0 < length bs" using assms(2) by simp
  have cl: "chunks = map (nth_chunk (path_name p) C ?n bs 0) [0..<?n]" and e: "e = None"
    using generate_file_chunks_closed_form[OF assms(1,3)] assms(4) by simp_all
  have n: "nat \<lceil>real (length bs) / real C\<rceil> = ?n"
    by (rule total_chunks_of_ceiling[OF assms(3) S])
  have len: "length chunks = ?n" unfolding cl by simp
  have num: "map chunk_number chunks = [1..<Suc (length chunks)]"
  proof -
    have "map chunk_number chunks = map Suc [0..<?n]"
      unfolding cl by (simp add: nth_chunk_def)
    also have "\<dots> = [Suc 0..<Suc ?n]" by (rule map_Suc_upt)
    finally show ?thesis using len by simp
  qed
  have tot: "\<forall>c \<in> set chunks. total_chunks c = ?n"
    unfolding cl by (auto simp: nth_chunk_def)
  have sz: "\<forall>i < length chunks.
            length (data (chunks ! i)) =
              (if Suc i < length chunks then C
               else if length bs mod C = 0 then C else length bs mod C)"
  proof (intro allI impI)
    fix i assume "i < length chunks"
    then have i: "i < ?n" using len by simp
    then have "data (chunks ! i) = take C (drop (i * C) bs)"
      unfolding cl by (simp add: nth_chunk_def)
    then show "length (data (chunks ! i)) =
              (if Suc i < length chunks then C
               else if length bs mod C = 0 then C else length bs mod C)"
      using chunk_size_closed_form[OF assms(3,2) i] len by (simp only:)
  qed
  show ?thesis using e len num tot sz n by (simp only:)
qed

lemma five_chunks_produced:
  "generate_file_chunks 2 five_fs ''dir/five.bin'' = (five_chunks, None)"
  by (simp add: generate_file_chunks_def generate_chunks_def five_fs_def five_chunks_def
        total_chunks_of_def path_name_def path_parts_def chunk_loop.simps Let_def)

theorem producer_emits_ceil_chunks_witness:
  "files five_fs ''dir/five.bin'' = Some [1, 2, 3, 4, 5] \<and>
   generate_file_chunks 2 five_fs ''dir/five.bin'' = (five_chunks, None) \<and>
   length five_chunks = 3 \<and>
   map chunk_number five_chunks = [1, 2, 3] \<and>
   map total_chunks five_chunks = [3, 3, 3] \<and>
   length (data (five_chunks ! 0)) = 2 \<and>
   length (data (five_chunks ! 1)) = 2 \<and>
   length (data (five_chunks ! 2)) = 1"
proof -
  have f: "files five_fs ''dir/five.bin'' = Some [1, 2, 3, 4, 5]" by (simp add: five_fs_def)
  have ne: "[1, 2, 3, 4, 5 :: byte] \<noteq> []" by simp
  have c: "(0::nat) < 2" by simp
  have l: "length five_chunks = 3" by (simp add: five_chunks_def)
  have m: "map chunk_number five_chunks = [1, 2, 3]" by (simp add: five_chunks_def)
  have t: "map total_chunks five_chunks = [3, 3, 3]" by (simp add: five_chunks_def)
  have d: "length (data (five_chunks ! 0)) = 2" "length (data (five_chunks ! 1)) = 2"
    "length (data (five_chunks ! 2)) = 1" by (simp_all add: five_chunks_def)
  show ?thesis
    using producer_emits_ceil_chunks[OF f ne c five_chunks_produced] f five_chunks_produced l m t d
    by simp
qed

subsection \<open>The division of the progress report\<close>

lemma chunk_loop_positive_size:
  "fsize \<noteq> 0 \<Longrightarrow>
   snd (chunk_loop fname C fsize tot f k sent) \<noteq> Some (ZeroDivisionError ProgressDiv)"
proof (induction "length f" arbitrary: f k sent rule: less_induct)
  case less
  show ?case
  proof (cases "C = 0 \<or> f = []")
    case True
    then have "take C f = []" by auto
    then show ?thesis by (subst chunk_loop.simps) simp
  next
    case False
    then have C: "0 < C" and f: "f \<noteq> []" by simp_all
    have shorter: "length (drop C f) < length f" using C f by (cases f) auto
    have ih: "snd (chunk_loop fname C fsize tot (drop C f) (k + 1) (sent + length (take C f)))
                \<noteq> Some (ZeroDivisionError ProgressDiv)"
      by (rule less.hyps[OF shorter less.prems])
    show ?thesis
      unfolding chunk_loop_step[OF C f less.prems] using ih by simp
  qed
qed

lemma chunk_loop_size_zero:
  "0 < C \<Longrightarrow> k + n = 99 \<Longrightarrow>
   snd (chunk_loop fname C 0 0 f k sent) =
     (if n * C < length f then Some (ZeroDivisionError ProgressDiv) else None)"
proof (induction n arbitrary: f k sent)
  case 0
  then have k: "k = 99" by simp
  show ?case
  proof (cases "f = []")
    case True
    then show ?thesis by (simp add: chunk_loop_Nil)
  next
    case False
    then have "take C f \<noteq> []" using 0(1) by simp
    then show ?thesis using False k by (subst chunk_loop.simps) (simp add: Let_def)
  qed
next
  case (Suc n)
  then have k: "k + 1 < 100" "k + 1 \<noteq> 0" by simp_all
  then have m: "(k + 1) mod 100 \<noteq> 0" by simp
  show ?case
  proof (cases "f = []")
    case True
    then show ?thesis by (simp add: chunk_loop_Nil)
  next
    case False
    then have tk: "take C f \<noteq> []" using Suc.prems(1) by simp
    have ih: "snd (chunk_loop fname C 0 0 (drop C f) (k + 1) (sent + length (take C f))) =
               (if n * C < length (drop C f) then Some (ZeroDivisionError ProgressDiv) else None)"
      using Suc.IH[OF Suc.prems(1), of "k + 1"] Suc.prems(2) by simp
    have a: "(n * C < length (drop C f)) = (Suc n * C < length f)" by auto
    have "snd (chunk_loop fname C 0 0 f k sent) =
          snd (chunk_loop fname C 0 0 (drop C f) (k + 1) (sent + length (take C f)))"
      using tk m by (subst chunk_loop.simps) (simp add: Let_def split: prod.split)
    then show ?thesis using ih a by (simp only:)
  qed
qed

text \<open>
  C10, as stated, fails: a source of which \<open>stat\<close> reports size 0 and whose reads return
  100 MiB (a FIFO), sent with the chunk size of the client, 1 MiB: after the 100th chunk
  the progress report divides by \<open>file_size = 0\<close>.
\<close>

theorem progress_division_by_zero_on_sizeless_source:
  "snd (generate_chunks 1048576 ''pipe'' 0 (replicate 104857600 0)) =
     Some (ZeroDivisionError ProgressDiv)"
proof -
  have t: "total_chunks_of 0 1048576 = 0" by (simp add: total_chunks_of_def)
  have "snd (chunk_loop ''pipe'' 1048576 0 0 (replicate 104857600 0) 0 0) =
          (if 99 * 1048576 < length (replicate 104857600 (0::byte))
           then Some (ZeroDivisionError ProgressDiv) else None)"
    by (rule chunk_loop_size_zero) simp_all
  then show ?thesis by (simp add: generate_chunks_def t)
qed

text \<open>
  The exact condition: \<open>stat\<close> reported the size 0 and the reads return more than 99
  chunk sizes of data.
\<close>

lemma progress_division_by_zero_iff:
  "(snd (generate_chunks chunk_size fname fsize f) = Some (ZeroDivisionError ProgressDiv)) =
     (0 < chunk_size \<and> fsize = 0 \<and> 99 * chunk_size < length f)"
proof (cases "chunk_size = 0")
  case True
  then show ?thesis by (simp add: generate_chunks_def)
next
  case False
  then have C: "0 < chunk_size" by simp
  show ?thesis
  proof (cases "fsize = 0")
    case True
    have t: "total_chunks_of 0 chunk_size = 0" using C by (simp add: total_chunks_of_def)
    have "snd (chunk_loop fname chunk_size 0 0 f 0 0) =
            (if 99 * chunk_size < length f then Some (ZeroDivisionError ProgressDiv) else None)"
      by (rule chunk_loop_size_zero[OF C]) simp
    then show ?thesis using True C by (simp add: generate_chunks_def t)
  next
    case False
    then show ?thesis
      using chunk_loop_positive_size[OF False] C by (simp add: generate_chunks_def)
  qed
qed

text \<open>
  C10, amended. The division by \<open>file_size\<close> of line 72 is never a division by zero when
  \<open>stat\<close> reported a positive size, and so never when the size it reported is the number
  of bytes the reads return (a regular file whose content is fixed): the line is reached
  only after a non-empty read. A source without data yields no chunk, so that the line
  is not reached.
\<close>

theorem progress_division_safe_with_size:
  "(0 < fsize \<longrightarrow>
      snd (generate_chunks chunk_size fname fsize f) \<noteq> Some (ZeroDivisionError ProgressDiv)) \<and>
   (fsize = length f \<longrightarrow>
      snd (generate_chunks chunk_size fname fsize f) \<noteq> Some (ZeroDivisionError ProgressDiv)) \<and>
   (f = [] \<longrightarrow> fst (generate_chunks chunk_size fname fsize f) = [])"
proof (intro conjI impI)
  assume "0 < fsize"
  then show "snd (generate_chunks chunk_size fname fsize f) \<noteq> Some (ZeroDivisionError ProgressDiv)"
    by (simp add: progress_division_by_zero_iff)
next
  assume "fsize = length f"
  then have "fsize = 0 \<Longrightarrow> \<not> 99 * chunk_size < length f" by simp
  then show "snd (generate_chunks chunk_size fname fsize f) \<noteq> Some (ZeroDivisionError ProgressDiv)"
    by (auto simp: progress_division_by_zero_iff)
next
  assume "f = []"
  then show "fst (generate_chunks chunk_size fname fsize f) = []"
    by (simp add: generate_chunks_def chunk_loop_Nil)
qed

theorem progress_division_safe_with_size_witness:
  "(0::nat) < 100 \<and> (100::nat) = length (replicate 100 (0::byte)) \<and>
   generate_chunks 1 ''hundred.bin'' 100 (replicate 100 0) =
     (map (nth_chunk ''hundred.bin'' 1 100 (replicate 100 0) 0) [0..<100], None) \<and>
   snd (generate_chunks 1 ''hundred.bin'' 100 (replicate 100 0)) \<noteq>
     Some (ZeroDivisionError ProgressDiv) \<and>
   fst (generate_chunks 1048576 ''empty.bin'' 0 []) = []"
proof -
  have "chunk_loop ''hundred.bin'' 1 100 100 (replicate 100 0) 0 0 =
          (map (nth_chunk ''hundred.bin'' 1 100 (replicate 100 0) 0) [0..<100], None)"
    by (rule chunk_loop_closed_form) simp_all
  then have a: "generate_chunks 1 ''hundred.bin'' 100 (replicate 100 0) =
     (map (nth_chunk ''hundred.bin'' 1 100 (replicate 100 0) 0) [0..<100], None)"
    by (simp add: generate_chunks_def total_chunks_of_def)
  show ?thesis
    using progress_division_safe_with_size[where fsize = 100 and chunk_size = 1
            and fname = "''hundred.bin''" and f = "replicate 100 0"]
          progress_division_safe_with_size[where fsize = 0 and chunk_size = 1048576
            and fname = "''empty.bin''" and f = "[]"] a
    by simp
qed

lemma md5_loop_feeds_all: "md5_loop f h = h @ f"
proof (induction f h rule: md5_loop.induct)
  case (1 f h)
  show ?case
  proof (cases "take 4096 f = []")
    case True
    then have "f = []" by simp
    then show ?thesis by (subst md5_loop.simps) simp
  next
    case False
    then have "md5_loop (drop 4096 f) (h @ take 4096 f) = (h @ take 4096 f) @ drop 4096 f"
      using 1 by simp
    then show ?thesis using False by (subst md5_loop.simps) (simp add: Let_def)
  qed
qed

lemma concat_pieces: "concat (map (\<lambda>i. take C (drop (i * C) xs)) [0..<n]) = take (n * C) xs"
proof (induction n)
  case 0
  show ?case by simp
next
  case (Suc n)
  have "concat (map (\<lambda>i. take C (drop (i * C) xs)) [0..<Suc n]) =
        concat (map (\<lambda>i. take C (drop (i * C) xs)) [0..<n]) @ take C (drop (n * C) xs)"
    by simp
  also have "\<dots> = take (n * C) xs @ take C (drop (n * C) xs)" by (simp only: Suc)
  also have "\<dots> = take (n * C + C) xs" by (rule take_add[symmetric])
  also have "n * C + C = Suc n * C" by simp
  finally show ?case .
qed

lemma chunks_carry_content:
  assumes "files fs p = Some bs" "0 < C"
  shows "concat (map data (fst (generate_file_chunks C fs p))) = bs"
proof -
  let ?n = "total_chunks_of (length bs) C"
  have "map data (map (nth_chunk (path_name p) C ?n bs 0) [0..<?n]) =
        map (\<lambda>i. take C (drop (i * C) bs)) [0..<?n]"
    by (simp add: nth_chunk_def)
  then have c: "concat (map data (fst (generate_file_chunks C fs p))) = take (?n * C) bs"
    unfolding generate_file_chunks_closed_form[OF assms] by (simp only: fst_conv concat_pieces)
  have "length bs \<le> ?n * C"
  proof (cases "bs = []")
    case True then show ?thesis by simp
  next
    case False
    then show ?thesis using total_chunks_of_bounds(2)[OF assms(2), of "length bs"] by simp
  qed
  then show ?thesis using c by simp
qed

subsection \<open>Digest and verification\<close>

text \<open>
  C8. The digest is a function of the byte content alone: the sender's \<open>_calculate_md5\<close>
  over a file and the receiver's \<open>GetFileInfo\<close> over a stored file of the same content
  give the same hex string, MD5 of the whole content, whatever chunk size the transfer
  used (the chunks of any size \<open>> 0\<close> carry exactly the content); computed again over the
  same content it is the same string.
\<close>

theorem digest_chunking_independent:
  assumes "files client_fs local_path = Some bs"
    and "files server_fs (path_join upload_dir fname) = Some bs"
    and "0 < chunk_size"
  shows "calculate_md5 H client_fs local_path = Inr (H bs) \<and>
         GetFileInfo H upload_dir server_fs fname =
           Inr \<lparr>exists = True, file_size = length bs, checksum = H bs\<rparr> \<and>
         concat (map data (fst (generate_file_chunks chunk_size client_fs local_path))) = bs"
  using assms chunks_carry_content[OF assms(1,3)]
  by (simp add: calculate_md5_def GetFileInfo_def md5_loop_feeds_all)

theorem digest_chunking_independent_witness:
  "files five_fs ''dir/five.bin'' = Some [1, 2, 3, 4, 5] \<and>
   files uploads_fs (path_join ''uploads'' ''five.bin'') = Some [1, 2, 3, 4, 5] \<and>
   calculate_md5 toy_digest five_fs ''dir/five.bin'' = Inr ''10101'' \<and>
   GetFileInfo toy_digest ''uploads'' uploads_fs ''five.bin'' =
     Inr \<lparr>exists = True, file_size = 5, checksum = ''10101''\<rparr> \<and>
   concat (map data (fst (generate_file_chunks 2 five_fs ''dir/five.bin''))) = [1, 2, 3, 4, 5]"
proof -
  have a: "files five_fs ''dir/five.bin'' = Some [1, 2, 3, 4, 5]" by (simp add: five_fs_def)
  have b: "files uploads_fs (path_join ''uploads'' ''five.bin'') = Some [1, 2, 3, 4, 5]"
    by (simp add: uploads_fs_def path_join_def path_root_def path_parts_def path_str_def)
  have c: "(0::nat) < 2" by simp
  have d: "toy_digest [1, 2, 3, 4, 5] = ''10101''" by (simp add: toy_digest_def)
  show ?thesis
    using digest_chunking_independent[OF a b c, of toy_digest] a b d by simp
qed

text \<open>
  C7, as stated, fails: for the empty filename no destination file exists, in a
  directory nothing has been written to, and \<open>GetFileInfo\<close> returns no result: the
  destination path is the upload directory itself, \<open>Path.exists\<close> is true of it and the
  \<open>open\<close> of line 85 raises.
\<close>

theorem GetFileInfo_empty_filename_raises:
  "files bare_uploads_fs (path_join ''uploads'' []) = None \<and>
   GetFileInfo toy_digest ''uploads'' bare_uploads_fs [] = Inl (IsADirectoryError ''uploads'')"
  by (simp add: GetFileInfo_def bare_uploads_fs_def path_join_def path_root_def path_parts_def
        path_str_def)

text \<open>
  C7, amended. When nothing exists at the destination path of a filename, neither a
  file nor a directory, and looking the path up raises no error, \<open>GetFileInfo\<close> returns
  \<open>exists = False\<close>, \<open>file_size = 0\<close> and the empty checksum; and every result with
  \<open>exists = False\<close> has \<open>file_size = 0\<close> and an empty checksum.
\<close>

theorem GetFileInfo_nothing_at_path:
  "(files fs (path_join upload_dir fname) = None \<and>
    path_join upload_dir fname \<notin> dirs fs \<and>
    lookup_failure fs (path_join upload_dir fname) = None \<longrightarrow>
      GetFileInfo H upload_dir fs fname = Inr \<lparr>exists = False, file_size = 0, checksum = []\<rparr>) \<and>
   (GetFileInfo H upload_dir fs fname = Inr r \<and> \<not> exists r \<longrightarrow>
      file_size r = 0 \<and> checksum r = [])"
  by (auto simp: GetFileInfo_def Let_def split: option.splits if_splits)

theorem GetFileInfo_nothing_at_path_witness:
  "files uploads_fs (path_join ''uploads'' ''absent.bin'') = None \<and>
   path_join ''uploads'' ''absent.bin'' \<notin> dirs uploads_fs \<and>
   lookup_failure uploads_fs (path_join ''uploads'' ''absent.bin'') = None \<and>
   GetFileInfo toy_digest ''uploads'' uploads_fs ''absent.bin'' =
     Inr \<lparr>exists = False, file_size = 0, checksum = []\<rparr> \<and>
   \<not> exists \<lparr>exists = False, file_size = 0, checksum = []\<rparr> \<and>
   file_size \<lparr>exists = False, file_size = 0, checksum = []\<rparr> = 0"
proof -
  have p: "path_join ''uploads'' ''absent.bin'' = ''uploads/absent.bin''"
    by (simp add: path_join_def path_root_def path_parts_def path_str_def)
  have a: "files uploads_fs (path_join ''uploads'' ''absent.bin'') = None"
    unfolding p by (simp add: uploads_fs_def)
  have b: "path_join ''uploads'' ''absent.bin'' \<notin> dirs uploads_fs"
    unfolding p by (simp add: uploads_fs_def)
  have c: "lookup_failure uploads_fs (path_join ''uploads'' ''absent.bin'') = None"
    unfolding p by (simp add: lookup_failure_def name_too_long_def uploads_fs_def)
  show ?thesis
    using GetFileInfo_nothing_at_path[where fs = uploads_fs and upload_dir = "''uploads''"
            and fname = "''absent.bin''" and H = toy_digest
            and r = "\<lparr>exists = False, file_size = 0, checksum = []\<rparr>"] a b c
    by simp
qed

text \<open>
  C9. Given the remote result, \<open>verify_file\<close> returns False whenever \<open>exists\<close> is false,
  whatever the checksums and the local file, and otherwise returns True exactly when the
  fingerprint computed over the local file is equal, as a string, to the remote checksum.
\<close>

theorem verify_file_result:
  assumes "stub fname = Inr r"
  shows "verify_file H stub fs fname local_path =
           (exists r \<and> calculate_md5 H fs local_path = Inr (checksum r))"
  using assms by (auto simp: verify_file_def split: sum.splits)

theorem verify_file_result_witness:
  "GetFileInfo toy_digest ''uploads'' uploads_fs ''five.bin'' =
     Inr \<lparr>exists = True, file_size = 5, checksum = ''10101''\<rparr> \<and>
   verify_file toy_digest (GetFileInfo toy_digest ''uploads'' uploads_fs) five_fs
     ''five.bin'' ''dir/five.bin'' = True \<and>
   GetFileInfo toy_digest ''uploads'' uploads_fs ''absent.bin'' =
     Inr \<lparr>exists = False, file_size = 0, checksum = []\<rparr> \<and>
   verify_file toy_digest (GetFileInfo toy_digest ''uploads'' uploads_fs) five_fs
     ''absent.bin'' ''dir/five.bin'' = False"
proof -
  have a: "GetFileInfo toy_digest ''uploads'' uploads_fs ''five.bin'' =
     Inr \<lparr>exists = True, file_size = 5, checksum = ''10101''\<rparr>"
    by (simp add: GetFileInfo_def uploads_fs_def path_join_def path_root_def path_parts_def
          path_str_def md5_loop_feeds_all toy_digest_def)
  have b: "GetFileInfo toy_digest ''uploads'' uploads_fs ''absent.bin'' =
     Inr \<lparr>exists = False, file_size = 0, checksum = []\<rparr>"
    by (simp add: GetFileInfo_def uploads_fs_def path_join_def path_root_def path_parts_def
          path_str_def lookup_failure_def name_too_long_def)
  have c: "calculate_md5 toy_digest five_fs ''dir/five.bin'' = Inr ''10101''"
    by (simp add: calculate_md5_def five_fs_def md5_loop_feeds_all toy_digest_def)
  show ?thesis
    using verify_file_result[where stub = "GetFileInfo toy_digest ''uploads'' uploads_fs"
            and fname = "''five.bin''" and H = toy_digest and fs = five_fs
            and local_path = "''dir/five.bin''", OF a]
          verify_file_result[where stub = "GetFileInfo toy_digest ''uploads'' uploads_fs"
            and fname = "''absent.bin''" and H = toy_digest and fs = five_fs
            and local_path = "''dir/five.bin''", OF b] a b c
    by simp
qed

subsection \<open>Handles of the receiver\<close>


subsection \<open>Lines 33 to 51, taken alone\<close>

text \<open>
  The body of the \<open>with\<close> statement started from the initial locals, as it would run if
  line 32 let it: the three chunks go to the buffer of the file object line 38 opens,
  and line 51 writes them out and releases the descriptor.
\<close>

lemma with_body_writes_and_closes:
  "with_body ''uploads'' initial_locals bare_uploads_fs five_chunks =
     (None,
      \<lparr>l_filename = Some ''five.bin'', l_file_path = Some ''uploads/five.bin'', l_f = Some 0,
       total_bytes = 5, chunks_received = 3\<rparr>,
      \<lparr>files = [''uploads/five.bin'' \<mapsto> [1, 2, 3, 4, 5]], dirs = {''uploads''},
       lookup_error = Map.empty, opened = Map.empty, next_fd = 1, blksize = 4096,
       space = 95\<rparr>, [])"
  by (simp add: with_body_def loop_body_def open_wb_def write_fd_def close_fd_def
        append_file_def buffer_size_def parent_exists_def lookup_failure_def name_too_long_def
        path_join_def path_root_def path_parts_def path_str_def
        initial_locals_def bare_uploads_fs_def five_chunks_def Let_def)

text \<open>
  A chunk larger than the buffer on a device with room for one byte: the write of line
  40 raises, the loop is left past line 51, and the descriptor of line 38 stays open.
\<close>

lemma with_body_failed_write_skips_close:
  "with_body ''uploads'' initial_locals (bare_uploads_fs\<lparr>blksize := 2, space := 1\<rparr>) [whole_chunk] =
     (Some NoSpaceError,
      \<lparr>l_filename = Some ''five.bin'', l_file_path = Some ''uploads/five.bin'', l_f = Some 0,
       total_bytes = 0, chunks_received = 0\<rparr>,
      \<lparr>files = [''uploads/five.bin'' \<mapsto> [1]], dirs = {''uploads''},
       lookup_error = Map.empty, opened = [0 \<mapsto> (''uploads/five.bin'', [])], next_fd = 1,
       blksize = 2, space = 0\<rparr>, [])"
  by (simp add: with_body_def loop_body_def open_wb_def write_fd_def close_fd_def
        append_file_def buffer_size_def parent_exists_def lookup_failure_def name_too_long_def
        path_join_def path_root_def path_parts_def path_str_def
        initial_locals_def bare_uploads_fs_def whole_chunk_def Let_def)

text \<open>The body of the loop reads neither \<open>chunk_number\<close> nor \<open>total_chunks\<close>.\<close>

lemma loop_body_ignores_sequence_fields:
  "loop_body upload_dir l fs (c\<lparr>chunk_number := n, total_chunks := t\<rparr>) =
   loop_body upload_dir l fs c"
  by (auto simp: loop_body_def Let_def split: option.splits sum.splits)

subsection \<open>No validation of chunks\<close>



lemma upt_3: "[0..<3] = [0, 1, 2]"
  by (simp add: upt_rec)

subsection \<open>The scenarios of the transfer\<close>

text \<open>
  C1. A source file of 2,500,000 bytes with chunk size 1,000,000: the producer ends
  normally with the chunks numbered 1, 2, 3, of 1,000,000, 1,000,000 and 500,000 bytes,
  \<open>is_last_chunk\<close> set on the third only. \<open>TransferFile\<close>, given these chunks, answers
  \<open>success = False\<close> and \<open>bytes_received = 0\<close>.
\<close>

theorem scenario_2500000_bytes:
  "snd (generate_file_chunks 1000000 source_fs ''big.bin'') = None \<and>
   map chunk_number (fst (generate_file_chunks 1000000 source_fs ''big.bin'')) = [1, 2, 3] \<and>
   map (\<lambda>c. length (data c)) (fst (generate_file_chunks 1000000 source_fs ''big.bin'')) =
     [1000000, 1000000, 500000] \<and>
   map is_last_chunk (fst (generate_file_chunks 1000000 source_fs ''big.bin'')) =
     [False, False, True] \<and>
   fst (TransferFile ''uploads'' 0 1 bare_uploads_fs
          (fst (generate_file_chunks 1000000 source_fs ''big.bin''))) =
     \<lparr>success = False, message = Error NoContextManager, bytes_received = 0\<rparr>"
proof -
  have f: "files source_fs ''big.bin'' = Some (replicate 2500000 0)"
    by (simp add: source_fs_def)
  have n: "total_chunks_of 2500000 1000000 = 3"
    by (simp add: total_chunks_of_def)
  have g: "generate_file_chunks 1000000 source_fs ''big.bin'' =
           (map (nth_chunk (path_name ''big.bin'') 1000000 3 (replicate 2500000 0) 0) [0, 1, 2], None)"
    using generate_file_chunks_closed_form[OF f, of 1000000] by (simp add: n upt_3)
  show ?thesis
    unfolding g
    by (simp add: nth_chunk_def TransferFile_def initial_locals_def with_statement_no_path)
qed

text \<open>
  C6. A 0-byte source file: \<open>total_chunks\<close> is 0 and the producer yields no chunk.
  \<open>TransferFile\<close>, given no chunk, opens no destination and answers \<open>success = False\<close>
  with \<open>bytes_received = 0\<close>.
\<close>

theorem zero_byte_file_transfer_fails:
  "total_chunks_of 0 1048576 = 0 \<and>
   generate_file_chunks 1048576 empty_fs ''empty.bin'' = ([], None) \<and>
   TransferFile ''uploads'' 0 1 bare_uploads_fs [] =
     (\<lparr>success = False, message = Error NoContextManager, bytes_received = 0\<rparr>, bare_uploads_fs, [])"
  by (simp add: total_chunks_of_def generate_file_chunks_def generate_chunks_def empty_fs_def
        chunk_loop_Nil
        TransferFile_def initial_locals_def with_statement_no_path)

end
